theory Spec2Isabelle
  imports Complex_Main
begin

section \<open>The dashboard script \<^verbatim>\<open>streamlit/app.py\<close>\<close>

text \<open>
  The script is run top to bottom by Streamlit once per render cycle. It reads the
  widgets, the wall clock and the session state, talks to the backend through
  \<^verbatim>\<open>requests\<close>, and renders elements through \<^verbatim>\<open>st.*\<close> calls.
  The model makes each of these explicit:
  \<^item> what the backend and the clock answer is an \<^emph>\<open>environment\<close>, fixed from outside;
  \<^item> what the script has done so far (clock readings taken, requests sent, elements
    rendered, the session value \<^verbatim>\<open>last_update\<close>) is a \<^emph>\<open>world\<close> record that every
    effectful call takes and returns;
  \<^item> an exception is a value: a call that may raise returns \<open>py_exn + 'a\<close>, and a
    \<^verbatim>\<open>try/except Exception\<close> is the case distinction on that sum.
  Exceptions are the instances of Python's \<^verbatim>\<open>Exception\<close> (all of
  \<^verbatim>\<open>requests.exceptions\<close> and the JSON decoding errors are); the system-exiting
  ones (\<^verbatim>\<open>KeyboardInterrupt\<close>, \<^verbatim>\<open>SystemExit\<close>) are not part of the model.
\<close>

subsection \<open>JSON values and Python renderings\<close>

datatype json =
    JNull
  | JBool bool
  | JNum real
  | JStr string
  | JArr "json list"
  | JObj "(string \<times> json) list"

text \<open>Truth value of a fetched value in \<^verbatim>\<open>if health:\<close>, \<^verbatim>\<open>if snapshots:\<close>.\<close>

fun truthy :: "json \<Rightarrow> bool" where
  "truthy JNull = False"
| "truthy (JBool b) = b"
| "truthy (JNum r) = (r \<noteq> 0)"
| "truthy (JStr s) = (s \<noteq> [])"
| "truthy (JArr xs) = (xs \<noteq> [])"
| "truthy (JObj kvs) = (kvs \<noteq> [])"

datatype py_exn = PyExn (exn_class: string) (exn_str: string)

text \<open>\<^verbatim>\<open>str(n)\<close> of an integer, as the f-strings of the script render a status code.\<close>

definition digit_char :: "nat \<Rightarrow> char" where
  "digit_char d = char_of (48 + d)"

function str_nat :: "nat \<Rightarrow> string" where
  "str_nat n = (if n < 10 then [digit_char n] else str_nat (n div 10) @ [digit_char (n mod 10)])"
  by pat_completeness auto
termination
  by (relation "measure id") auto

declare str_nat.simps [simp del]

definition str_int :: "int \<Rightarrow> string" where
  "str_int i = (if i < 0 then CHR ''-'' # str_nat (nat (- i)) else str_nat (nat i))"

subsection \<open>Requests, responses, rendered elements\<close>

definition API_BASE_URL :: string where
  "API_BASE_URL = ''http://localhost:8080/api''"

datatype http_method = GET | POST

text \<open>A request as \<^verbatim>\<open>requests.get(url)\<close> and \<^verbatim>\<open>requests.post(url, json=...)\<close> send it.\<close>

record request =
  req_method :: http_method
  req_url :: string
  req_json :: "json option"

text \<open>
  A response: \<^verbatim>\<open>response.status_code\<close>, \<^verbatim>\<open>response.text\<close>, and what
  \<^verbatim>\<open>response.json()\<close> gives (it raises when the body is not JSON).
\<close>

record response =
  status_code :: int
  resp_text :: string
  resp_json :: "py_exn + json"

text \<open>
  Figures are what the chart builders return: the traces in the order they were added,
  and the layout settings the source passes.
\<close>

datatype cell = NaN | Val json

datatype trace =
    Scatter (trace_x: "cell list") (trace_y: "cell list") (trace_mode: string)
      (trace_name: cell) (line_width: nat) (marker_size: nat)
  | Bar (trace_x: "cell list") (trace_y: "cell list") (trace_name: cell)
      (marker_color: "string option")

record figure =
  fig_data :: "trace list"
  fig_title :: string
  xaxis_title :: "string option"
  yaxis_title :: "string option"
  fig_height :: nat
  hovermode :: "string option"

text \<open>A table: its number of rows and its columns in order, each a list of cells.\<close>

record dataframe =
  nrows :: nat
  cols :: "(string \<times> cell list) list"

datatype element =
    StError string
  | StSuccess string
  | StInfo string
  | StSubheader string
  | StPlotlyChart figure
  | StDataframe dataframe

subsection \<open>Environment and world\<close>

record env =
  clock :: "nat \<Rightarrow> real"  \<comment> \<open>the value of the \<open>k\<close>-th call of \<^verbatim>\<open>time.time()\<close>\<close>
  http :: "nat \<Rightarrow> request \<Rightarrow> py_exn + response"
    \<comment> \<open>the outcome of the \<open>k\<close>-th request: an exception raised, or a response\<close>
  to_datetime :: "cell \<Rightarrow> py_exn + cell"
    \<comment> \<open>\<^verbatim>\<open>pd.to_datetime\<close> on one cell; it raises on what it cannot parse\<close>

record world =
  clock_reads :: nat  \<comment> \<open>calls of \<^verbatim>\<open>time.time()\<close> so far\<close>
  sent :: "request list"  \<comment> \<open>requests issued so far, oldest first\<close>
  ui :: "element list"  \<comment> \<open>elements rendered so far, oldest first\<close>
  last_update :: "real option"
    \<comment> \<open>\<^verbatim>\<open>st.session_state.last_update\<close>; \<open>None\<close> when the key is absent\<close>
  last_update_writes :: "real list"
    \<comment> \<open>every value assigned to \<^verbatim>\<open>st.session_state.last_update\<close>, oldest first\<close>

definition render :: "element \<Rightarrow> world \<Rightarrow> world" where
  "render e w = w\<lparr>ui := ui w @ [e]\<rparr>"

definition time_time :: "env \<Rightarrow> world \<Rightarrow> real \<times> world" where
  "time_time e w = (clock e (clock_reads w), w\<lparr>clock_reads := Suc (clock_reads w)\<rparr>)"

definition send :: "env \<Rightarrow> request \<Rightarrow> world \<Rightarrow> (py_exn + response) \<times> world" where
  "send e r w = (http e (length (sent w)) r, w\<lparr>sent := sent w @ [r]\<rparr>)"

definition get_request :: "string \<Rightarrow> request" where
  "get_request u = \<lparr>req_method = GET, req_url = u, req_json = None\<rparr>"

definition post_request :: "string \<Rightarrow> json \<Rightarrow> request" where
  "post_request u j = \<lparr>req_method = POST, req_url = u, req_json = Some j\<rparr>"

definition requests_get :: "env \<Rightarrow> string \<Rightarrow> world \<Rightarrow> (py_exn + response) \<times> world" where
  "requests_get e u w = send e (get_request u) w"

definition requests_post :: "env \<Rightarrow> string \<Rightarrow> json \<Rightarrow> world \<Rightarrow> (py_exn + response) \<times> world" where
  "requests_post e u j w = send e (post_request u j) w"

definition is_post :: "request \<Rightarrow> bool" where
  "is_post r = (req_method r = POST)"

subsection \<open>\<^verbatim>\<open>fetch_data\<close> (lines 80-91)\<close>

text \<open>
  \<^verbatim>\<open>
  def fetch_data(endpoint):
      try:
          response = requests.get(f"{API_BASE_URL}/{endpoint}")
          if response.status_code == 200:
              return response.json()
          else:
              st.error(f"Failed to fetch {endpoint}: {response.status_code}")
              return []
      except Exception as e:
          st.error(f"Error fetching {endpoint}: {str(e)}")
          return []
  \<close>
\<close>

definition fetch_failed :: "string \<Rightarrow> py_exn \<Rightarrow> world \<Rightarrow> json \<times> world" where
  "fetch_failed endpoint e w =
     (JArr [], render (StError (''Error fetching '' @ endpoint @ '': '' @ exn_str e)) w)"

definition fetch_data :: "env \<Rightarrow> string \<Rightarrow> world \<Rightarrow> json \<times> world" where
  "fetch_data e endpoint w =
     (case requests_get e (API_BASE_URL @ ''/'' @ endpoint) w of
        (Inl ex, w1) \<Rightarrow> fetch_failed endpoint ex w1
      | (Inr response, w1) \<Rightarrow>
          if status_code response = 200 then
            (case resp_json response of
               Inr j \<Rightarrow> (j, w1)
             | Inl ex \<Rightarrow> fetch_failed endpoint ex w1)
          else
            (JArr [],
             render (StError (''Failed to fetch '' @ endpoint @ '': ''
                       @ str_int (status_code response))) w1))"

subsection \<open>The sidebar (lines 43-77)\<close>

text \<open>
  The values the widgets of the sidebar hold in one run of the script: the checkbox, the
  slider (an integer from 1 to 60), the two text inputs and the three number inputs of the
  form, and whether the run was caused by pressing the form's submit button.
\<close>

record widgets =
  auto_refresh :: bool
  refresh_interval :: int
  spot_symbol :: string
  future_symbol :: string
  target_basis :: real
  max_position :: real
  min_trade_size :: real
  form_submit_button :: bool

text \<open>
  The widgets declared between \<^verbatim>\<open>with st.form("new_strategy"):\<close> and the end of the
  form, in the order of the source, each with its label.
\<close>

datatype form_widget =
    Write string
  | TextInput string string
  | NumberInput string real real real  \<comment> \<open>label, \<^verbatim>\<open>min_value\<close>, \<^verbatim>\<open>value\<close>, \<^verbatim>\<open>step\<close>\<close>
  | Checkbox string bool
  | FormSubmitButton string

definition new_strategy_widgets :: "form_widget list" where
  "new_strategy_widgets =
     [Write ''Add New Strategy'',
      TextInput ''Spot Symbol'' ''BTC-USD'',
      TextInput ''Future Symbol'' ''BTC-PERP'',
      NumberInput ''Target Basis (%)'' 0 5 (1 / 10),
      NumberInput ''Max Position Size'' 0 1 (1 / 10),
      NumberInput ''Min Trade Size'' 0 (1 / 100) (1 / 1000),
      FormSubmitButton ''Add Strategy'']"

fun collects_value :: "form_widget \<Rightarrow> bool" where
  "collects_value (TextInput _ _) = True"
| "collects_value (NumberInput _ _ _ _) = True"
| "collects_value (Checkbox _ _) = True"
| "collects_value _ = False"

fun is_flag :: "form_widget \<Rightarrow> bool" where
  "is_flag (Checkbox _ _) = True"
| "is_flag _ = False"

text \<open>
  \<^verbatim>\<open>
  strategy_data = {"spot_symbol": spot_symbol, "future_symbol": future_symbol,
                   "target_basis": target_basis, "max_position": max_position,
                   "min_trade_size": min_trade_size, "is_active": True}
  \<close>
\<close>

definition strategy_data :: "widgets \<Rightarrow> json" where
  "strategy_data f =
     JObj [(''spot_symbol'', JStr (spot_symbol f)),
           (''future_symbol'', JStr (future_symbol f)),
           (''target_basis'', JNum (target_basis f)),
           (''max_position'', JNum (max_position f)),
           (''min_trade_size'', JNum (min_trade_size f)),
           (''is_active'', JBool True)]"

text \<open>
  \<^verbatim>\<open>
  if st.form_submit_button("Add Strategy"):
      strategy_data = {...}
      try:
          response = requests.post(f"{API_BASE_URL}/strategies", json=strategy_data)
          if response.status_code == 201:
              st.success("Strategy added successfully!")
          else:
              st.error(f"Failed to add strategy: {response.text}")
      except Exception as e:
          st.error(f"Error: {str(e)}")
  \<close>
\<close>

definition new_strategy :: "env \<Rightarrow> widgets \<Rightarrow> world \<Rightarrow> world" where
  "new_strategy e f w =
     (if form_submit_button f then
        (case requests_post e (API_BASE_URL @ ''/strategies'') (strategy_data f) w of
           (Inr response, w1) \<Rightarrow>
             if status_code response = 201 then
               render (StSuccess ''Strategy added successfully!'') w1
             else
               render (StError (''Failed to add strategy: '' @ resp_text response)) w1
         | (Inl ex, w1) \<Rightarrow> render (StError (''Error: '' @ exn_str ex)) w1)
      else w)"

subsection \<open>Refresh and fetch (lines 135-148)\<close>

text \<open>
  \<^verbatim>\<open>
  if 'last_update' not in st.session_state:
      st.session_state.last_update = time.time()
  \<close>
  The function returns the session value after the statement.
\<close>

definition set_last_update :: "real \<Rightarrow> world \<Rightarrow> world" where
  "set_last_update t w =
     w\<lparr>last_update := Some t, last_update_writes := last_update_writes w @ [t]\<rparr>"

definition init_last_update :: "env \<Rightarrow> world \<Rightarrow> real \<times> world" where
  "init_last_update e w =
     (case last_update w of
        None \<Rightarrow> (case time_time e w of (t, w1) \<Rightarrow> (t, set_last_update t w1))
      | Some t \<Rightarrow> (t, w))"

text \<open>
  \<^verbatim>\<open>
  health = fetch_data("health")
  snapshots = fetch_data("basis/snapshots")
  strategies = fetch_data("strategies")
  positions = fetch_data("positions")
  trades = fetch_data("trades")
  \<close>
\<close>

record fetched =
  fetched_health :: json
  fetched_snapshots :: json
  fetched_strategies :: json
  fetched_positions :: json
  fetched_trades :: json

definition fetch_all :: "env \<Rightarrow> world \<Rightarrow> fetched \<times> world" where
  "fetch_all e w =
     (case fetch_data e ''health'' w of (h, w1) \<Rightarrow>
      case fetch_data e ''basis/snapshots'' w1 of (s, w2) \<Rightarrow>
      case fetch_data e ''strategies'' w2 of (st, w3) \<Rightarrow>
      case fetch_data e ''positions'' w3 of (p, w4) \<Rightarrow>
      case fetch_data e ''trades'' w4 of (t, w5) \<Rightarrow>
        (\<lparr>fetched_health = h, fetched_snapshots = s, fetched_strategies = st,
           fetched_positions = p, fetched_trades = t\<rparr>, w5))"

text \<open>
  One run of the script from the sidebar to the fetches. \<^verbatim>\<open>st.rerun()\<close> stops the run
  and asks Streamlit to run the script again: the run ends as \<open>Rerun\<close>. Otherwise the
  five resources are fetched and the run goes on to display them.
  \<^verbatim>\<open>
  if auto_refresh and (time.time() - st.session_state.last_update) > refresh_interval:
      st.session_state.last_update = time.time()
      st.rerun()
  \<close>
  The \<^verbatim>\<open>and\<close> does not read the clock when the toggle is off; the assignment reads it
  a second time.
\<close>

datatype cycle = Rerun | Fetched fetched

definition render_cycle :: "env \<Rightarrow> widgets \<Rightarrow> world \<Rightarrow> cycle \<times> world" where
  "render_cycle e f w =
     (case init_last_update e (new_strategy e f w) of (since, w1) \<Rightarrow>
        if auto_refresh f then
          (case time_time e w1 of (now, w2) \<Rightarrow>
             if now - since > real_of_int (refresh_interval f) then
               (case time_time e w2 of (t, w3) \<Rightarrow> (Rerun, set_last_update t w3))
             else (case fetch_all e w2 of (d, w3) \<Rightarrow> (Fetched d, w3)))
        else (case fetch_all e w1 of (d, w2) \<Rightarrow> (Fetched d, w2)))"

text \<open>
  The time since the last refresh that the condition of a run compares with the interval:
  the reading of the clock taken by the condition, minus the session value (the one the
  run finds, or the one it has just initialised from the reading before).
\<close>

definition elapsed :: "env \<Rightarrow> world \<Rightarrow> real" where
  "elapsed e w =
     (case last_update w of
        Some t \<Rightarrow> clock e (clock_reads w) - t
      | None \<Rightarrow> clock e (Suc (clock_reads w)) - clock e (clock_reads w))"

subsection \<open>Tables (the pandas calls of the script)\<close>

text \<open>
  A fetched list of records is a list of JSON objects, each a list of key-value pairs
  (looked up from the left). \<^verbatim>\<open>pd.DataFrame(records)\<close> has one row per record and one
  column per key, in the order the keys first appear; a record without the key has
  \<open>NaN\<close> in that column.
\<close>

type_synonym pydict = "(string \<times> json) list"

text \<open>\<^verbatim>\<open>Series.unique()\<close>: the distinct values in the order they first appear.\<close>

fun unique :: "'a list \<Rightarrow> 'a list" where
  "unique [] = []"
| "unique (x # xs) = x # filter (\<lambda>y. y \<noteq> x) (unique xs)"

definition lookup_cell :: "pydict \<Rightarrow> string \<Rightarrow> cell" where
  "lookup_cell r k = (case map_of r k of None \<Rightarrow> NaN | Some v \<Rightarrow> Val v)"

definition DataFrame :: "pydict list \<Rightarrow> dataframe" where
  "DataFrame rs =
     \<lparr>nrows = length rs,
      cols = map (\<lambda>k. (k, map (\<lambda>r. lookup_cell r k) rs)) (unique (concat (map (map fst) rs)))\<rparr>"

text \<open>\<^verbatim>\<open>df.empty\<close>: no rows or no columns.\<close>

definition df_empty :: "dataframe \<Rightarrow> bool" where
  "df_empty df = (nrows df = 0 \<or> cols df = [])"

text \<open>\<^verbatim>\<open>df[k]\<close> raises \<^verbatim>\<open>KeyError\<close> when there is no column \<open>k\<close>.\<close>

definition getitem :: "dataframe \<Rightarrow> string \<Rightarrow> py_exn + cell list" where
  "getitem df k =
     (case map_of (cols df) k of
        None \<Rightarrow> Inl (PyExn ''KeyError'' ([CHR 0x27] @ k @ [CHR 0x27]))
      | Some xs \<Rightarrow> Inr xs)"

text \<open>\<^verbatim>\<open>df[k] = xs\<close> replaces the column \<open>k\<close> where it stands, or adds it as the last.\<close>

fun set_col :: "string \<Rightarrow> cell list \<Rightarrow> (string \<times> cell list) list \<Rightarrow> (string \<times> cell list) list" where
  "set_col k xs [] = [(k, xs)]"
| "set_col k xs ((k', ys) # cs) = (if k' = k then (k, xs) # cs else (k', ys) # set_col k xs cs)"

definition setitem :: "dataframe \<Rightarrow> string \<Rightarrow> cell list \<Rightarrow> dataframe" where
  "setitem df k xs = df\<lparr>cols := set_col k xs (cols df)\<rparr>"

text \<open>An operation applied to every cell of a column; the first cell that raises ends it.\<close>

fun each :: "('a \<Rightarrow> py_exn + 'b) \<Rightarrow> 'a list \<Rightarrow> py_exn + 'b list" where
  "each f [] = Inr []"
| "each f (x # xs) =
     (case f x of
        Inl ex \<Rightarrow> Inl ex
      | Inr y \<Rightarrow> (case each f xs of Inl ex \<Rightarrow> Inl ex | Inr ys \<Rightarrow> Inr (y # ys)))"

text \<open>
  \<open>+\<close> on two cells of a column of Python objects, as line 173 uses it (one side is
  always a string or the result of adding one): a missing value (\<open>NaN\<close>, or JSON
  \<^verbatim>\<open>null\<close>) on either side gives \<open>NaN\<close>, two strings are concatenated, and a string
  added to anything else raises \<^verbatim>\<open>TypeError\<close>.
\<close>

fun isna :: "cell \<Rightarrow> bool" where
  "isna NaN = True"
| "isna (Val JNull) = True"
| "isna _ = False"

fun cell_add :: "cell \<Rightarrow> cell \<Rightarrow> py_exn + cell" where
  "cell_add (Val (JStr a)) (Val (JStr b)) = Inr (Val (JStr (a @ b)))"
| "cell_add a b =
     (if isna a \<or> isna b then Inr NaN
      else Inl (PyExn ''TypeError'' ''unsupported operand type(s) for +''))"

definition series_add_str :: "cell list \<Rightarrow> string \<Rightarrow> py_exn + cell list" where
  "series_add_str xs s = each (\<lambda>c. cell_add c (Val (JStr s))) xs"

definition series_add :: "cell list \<Rightarrow> cell list \<Rightarrow> py_exn + cell list" where
  "series_add xs ys = each (\<lambda>(a, b). cell_add a b) (zip xs ys)"

text \<open>
  \<^verbatim>\<open>column == value\<close>, cell by cell: a missing value equals nothing, not even itself.
  Other cells are compared as JSON values; the symbols, pairs and sides of the data model
  are strings, for which this is Python's equality.
\<close>

definition cell_eq :: "cell \<Rightarrow> cell \<Rightarrow> bool" where
  "cell_eq a b = (\<not> isna a \<and> \<not> isna b \<and> a = b)"

text \<open>\<^verbatim>\<open>df[mask]\<close>: the rows where the mask is true, in order.\<close>

definition mask_rows :: "bool list \<Rightarrow> 'a list \<Rightarrow> 'a list" where
  "mask_rows m xs = map snd (filter fst (zip m xs))"

definition filter_df :: "dataframe \<Rightarrow> bool list \<Rightarrow> dataframe" where
  "filter_df df m =
     \<lparr>nrows = length (filter id m), cols = map (\<lambda>(k, xs). (k, mask_rows m xs)) (cols df)\<rparr>"

text \<open>\<^verbatim>\<open>df[[k1, ..., kn]]\<close>: these columns in this order; \<^verbatim>\<open>KeyError\<close> when one is absent.\<close>

definition select_cols :: "dataframe \<Rightarrow> string list \<Rightarrow> py_exn + dataframe" where
  "select_cols df ks =
     (case each (\<lambda>k. case getitem df k of Inl ex \<Rightarrow> Inl ex | Inr xs \<Rightarrow> Inr (k, xs)) ks of
        Inl ex \<Rightarrow> Inl ex
      | Inr cs \<Rightarrow> Inr \<lparr>nrows = nrows df, cols = cs\<rparr>)"

text \<open>\<^verbatim>\<open>df.tail(n)\<close>: the last \<open>n\<close> rows, all of them when there are fewer.\<close>

definition tail :: "nat \<Rightarrow> dataframe \<Rightarrow> dataframe" where
  "tail n df =
     \<lparr>nrows = min n (nrows df), cols = map (\<lambda>(k, xs). (k, drop (length xs - n) xs)) (cols df)\<rparr>"

subsection \<open>\<^verbatim>\<open>create_basis_chart\<close> (lines 93-116)\<close>

text \<open>
  \<^verbatim>\<open>
  for symbol_pair in snapshots_df['pair'].unique():
      pair_data = snapshots_df[snapshots_df['pair'] == symbol_pair]
      fig.add_trace(go.Scatter(x=pair_data['timestamp'], y=pair_data['basis_percent'],
          mode='lines+markers', name=symbol_pair, line=dict(width=2), marker=dict(size=6)))
  \<close>
\<close>

definition pair_trace :: "dataframe \<Rightarrow> cell \<Rightarrow> py_exn + trace" where
  "pair_trace snapshots_df symbol_pair =
     (case getitem snapshots_df ''pair'' of
        Inl ex \<Rightarrow> Inl ex
      | Inr pairs \<Rightarrow>
          (let pair_data = filter_df snapshots_df (map (\<lambda>c. cell_eq c symbol_pair) pairs) in
           case getitem pair_data ''timestamp'' of
             Inl ex \<Rightarrow> Inl ex
           | Inr xs \<Rightarrow>
               (case getitem pair_data ''basis_percent'' of
                  Inl ex \<Rightarrow> Inl ex
                | Inr ys \<Rightarrow> Inr (Scatter xs ys ''lines+markers'' symbol_pair 2 6))))"

fun add_traces :: "dataframe \<Rightarrow> cell list \<Rightarrow> trace list \<Rightarrow> py_exn + trace list" where
  "add_traces snapshots_df [] fig = Inr fig"
| "add_traces snapshots_df (symbol_pair # rest) fig =
     (case pair_trace snapshots_df symbol_pair of
        Inl ex \<Rightarrow> Inl ex
      | Inr t \<Rightarrow> add_traces snapshots_df rest (fig @ [t]))"

definition create_basis_chart :: "dataframe \<Rightarrow> py_exn + figure" where
  "create_basis_chart snapshots_df =
     (case getitem snapshots_df ''pair'' of
        Inl ex \<Rightarrow> Inl ex
      | Inr pairs \<Rightarrow>
          (case add_traces snapshots_df (unique pairs) [] of
             Inl ex \<Rightarrow> Inl ex
           | Inr ts \<Rightarrow>
               Inr \<lparr>fig_data = ts, fig_title = ''Basis Percentage Over Time'',
                    xaxis_title = Some ''Time'', yaxis_title = Some ''Basis %'',
                    fig_height = 400, hovermode = Some ''x unified''\<rparr>))"

subsection \<open>\<^verbatim>\<open>create_position_chart\<close> (lines 118-130)\<close>

text \<open>
  \<^verbatim>\<open>
  fig = px.bar(positions_df, x='symbol', y='size', color='side',
               title="Current Positions", height=300,
               color_discrete_map={'long': '#00CC88', 'short': '#FF4444'})
  \<close>
  Plotly Express on a colour column of strings. It raises \<^verbatim>\<open>ValueError\<close> when a named
  column is absent. When the colour column has a single distinct value (a missing one
  counts as a value here), it does not group: it draws one bar trace, named by that value,
  holding all the rows. Otherwise it groups the rows by the colour value, which drops the
  rows whose colour value is missing, and draws one bar trace per remaining value, in the
  order the values first appear, holding the rows with that value. The colour of a trace
  is the entry of \<^verbatim>\<open>color_discrete_map\<close> for its value; \<open>None\<close> stands for a value
  without an entry, which Plotly colours from its default sequence. The axes are titled
  with the names of the columns. (A colour column of numbers is drawn on a continuous
  scale instead; the data model has \<open>side\<close> as a string, and the model does not cover
  numbers.)
\<close>

definition color_discrete_map :: "(string \<times> string) list" where
  "color_discrete_map = [(''long'', ''#00CC88''), (''short'', ''#FF4444'')]"

definition discrete_color :: "(string \<times> string) list \<Rightarrow> cell \<Rightarrow> string option" where
  "discrete_color m c = (case c of Val (JStr s) \<Rightarrow> map_of m s | _ \<Rightarrow> None)"

definition px_column :: "dataframe \<Rightarrow> string \<Rightarrow> py_exn + cell list" where
  "px_column df k =
     (case map_of (cols df) k of
        None \<Rightarrow> Inl (PyExn ''ValueError'' (''Value of argument is not the name of a column: '' @ k))
      | Some xs \<Rightarrow> Inr xs)"

definition bar_trace ::
    "(string \<times> string) list \<Rightarrow> cell list \<Rightarrow> cell list \<Rightarrow> cell list \<Rightarrow> cell \<Rightarrow> trace" where
  "bar_trace m xs ys colors v =
     (let rows = map (\<lambda>c. cell_eq c v) colors in
      Bar (mask_rows rows xs) (mask_rows rows ys) v (discrete_color m v))"

definition px_bar ::
    "dataframe \<Rightarrow> string \<Rightarrow> string \<Rightarrow> string \<Rightarrow> string \<Rightarrow> nat \<Rightarrow> (string \<times> string) list
      \<Rightarrow> py_exn + figure" where
  "px_bar df x y color title height m =
     (case px_column df x of
        Inl ex \<Rightarrow> Inl ex
      | Inr xs \<Rightarrow>
          (case px_column df y of
             Inl ex \<Rightarrow> Inl ex
           | Inr ys \<Rightarrow>
               (case px_column df color of
                  Inl ex \<Rightarrow> Inl ex
                | Inr colors \<Rightarrow>
                    Inr \<lparr>fig_data =
                           (case unique colors of
                              [v] \<Rightarrow> [Bar xs ys v (discrete_color m v)]
                            | _ \<Rightarrow>
                                map (bar_trace m xs ys colors)
                                  (unique (filter (\<lambda>c. \<not> isna c) colors))),
                         fig_title = title, xaxis_title = Some x, yaxis_title = Some y,
                         fig_height = height, hovermode = None\<rparr>)))"

definition create_position_chart :: "dataframe \<Rightarrow> py_exn + figure" where
  "create_position_chart positions_df =
     px_bar positions_df ''symbol'' ''size'' ''side'' ''Current Positions'' 300 color_discrete_map"

text \<open>
  The two colours of the map as red, green and blue components, to say which colour a
  code is: green where the green component is the largest, red where the red one is.
\<close>

definition hex_digit :: "char \<Rightarrow> nat" where
  "hex_digit c =
     (let n = of_char c in
      if 48 \<le> n \<and> n \<le> 57 then n - 48
      else if 65 \<le> n \<and> n \<le> 70 then n - 55
      else if 97 \<le> n \<and> n \<le> 102 then n - 87
      else 0)"

fun rgb :: "string \<Rightarrow> (nat \<times> nat \<times> nat) option" where
  "rgb [h, r1, r0, g1, g0, b1, b0] =
     (if h = CHR ''#'' then
        Some (16 * hex_digit r1 + hex_digit r0, 16 * hex_digit g1 + hex_digit g0,
              16 * hex_digit b1 + hex_digit b0)
      else None)"
| "rgb _ = None"

definition is_green :: "string \<Rightarrow> bool" where
  "is_green s = (case rgb s of Some (r, g, b) \<Rightarrow> r < g \<and> b < g | None \<Rightarrow> False)"

definition is_red :: "string \<Rightarrow> bool" where
  "is_red s = (case rgb s of Some (r, g, b) \<Rightarrow> g < r \<and> b < r | None \<Rightarrow> False)"

subsection \<open>The panels (lines 166-178 and 209-221)\<close>

text \<open>
  A panel takes the fetched list of records and renders; it returns the exception that
  ended it, if any, with the world as the exception left it. The labels of the
  subheaders are given without the leading pictograph of the source.
  \<^verbatim>\<open>
  st.subheader("Basis Analysis")
  if snapshots:
      snapshots_df = pd.DataFrame(snapshots)
      if not snapshots_df.empty:
          snapshots_df['timestamp'] = pd.to_datetime(snapshots_df['timestamp'])
          snapshots_df['pair'] = snapshots_df['spot_symbol'] + '/' + snapshots_df['future_symbol']
          basis_chart = create_basis_chart(snapshots_df)
          st.plotly_chart(basis_chart, use_container_width=True)
  else:
      st.info("No basis data available yet")
  \<close>
\<close>

definition convert_datetime :: "env \<Rightarrow> dataframe \<Rightarrow> string \<Rightarrow> py_exn + dataframe" where
  "convert_datetime e df k =
     (case getitem df k of
        Inl ex \<Rightarrow> Inl ex
      | Inr xs \<Rightarrow>
          (case each (to_datetime e) xs of
             Inl ex \<Rightarrow> Inl ex
           | Inr ts \<Rightarrow> Inr (setitem df k ts)))"

definition add_pair :: "dataframe \<Rightarrow> py_exn + dataframe" where
  "add_pair df =
     (case getitem df ''spot_symbol'' of
        Inl ex \<Rightarrow> Inl ex
      | Inr spots \<Rightarrow>
          (case series_add_str spots ''/'' of
             Inl ex \<Rightarrow> Inl ex
           | Inr prefixes \<Rightarrow>
               (case getitem df ''future_symbol'' of
                  Inl ex \<Rightarrow> Inl ex
                | Inr futures \<Rightarrow>
                    (case series_add prefixes futures of
                       Inl ex \<Rightarrow> Inl ex
                     | Inr pairs \<Rightarrow> Inr (setitem df ''pair'' pairs)))))"

text \<open>
  The string a record holds under a key (the empty string when it holds none), to name the
  symbols of a snapshot.
\<close>

definition str_field :: "pydict \<Rightarrow> string \<Rightarrow> string" where
  "str_field r k = (case map_of r k of Some (JStr s) \<Rightarrow> s | _ \<Rightarrow> [])"

definition basis_figure :: "env \<Rightarrow> dataframe \<Rightarrow> py_exn + figure" where
  "basis_figure e snapshots_df =
     (case convert_datetime e snapshots_df ''timestamp'' of
        Inl ex \<Rightarrow> Inl ex
      | Inr df1 \<Rightarrow>
          (case add_pair df1 of
             Inl ex \<Rightarrow> Inl ex
           | Inr df2 \<Rightarrow> create_basis_chart df2))"

definition basis_panel :: "env \<Rightarrow> pydict list \<Rightarrow> world \<Rightarrow> py_exn option \<times> world" where
  "basis_panel e snapshots w =
     (let w1 = render (StSubheader ''Basis Analysis'') w in
      if snapshots \<noteq> [] then
        (let snapshots_df = DataFrame snapshots in
         if \<not> df_empty snapshots_df then
           (case basis_figure e snapshots_df of
              Inl ex \<Rightarrow> (Some ex, w1)
            | Inr basis_chart \<Rightarrow> (None, render (StPlotlyChart basis_chart) w1))
         else (None, w1))
      else (None, render (StInfo ''No basis data available yet'') w1))"

text \<open>
  \<^verbatim>\<open>
  st.subheader("Recent Trades")
  if trades:
      trades_df = pd.DataFrame(trades)
      trades_df['created_at'] = pd.to_datetime(trades_df['created_at'])
      st.dataframe(trades_df[['id', 'strategy_id', 'side', 'size', 'spot_price',
          'future_price', 'basis', 'status', 'created_at']].tail(10), use_container_width=True)
  else:
      st.info("No trades executed yet")
  \<close>
\<close>

definition trade_columns :: "string list" where
  "trade_columns = [''id'', ''strategy_id'', ''side'', ''size'', ''spot_price'',
     ''future_price'', ''basis'', ''status'', ''created_at'']"

definition trades_table :: "env \<Rightarrow> pydict list \<Rightarrow> py_exn + dataframe" where
  "trades_table e trades =
     (case convert_datetime e (DataFrame trades) ''created_at'' of
        Inl ex \<Rightarrow> Inl ex
      | Inr trades_df \<Rightarrow>
          (case select_cols trades_df trade_columns of
             Inl ex \<Rightarrow> Inl ex
           | Inr shown \<Rightarrow> Inr (tail 10 shown)))"

definition trades_panel :: "env \<Rightarrow> pydict list \<Rightarrow> world \<Rightarrow> py_exn option \<times> world" where
  "trades_panel e trades w =
     (let w1 = render (StSubheader ''Recent Trades'') w in
      if trades \<noteq> [] then
        (case trades_table e trades of
           Inl ex \<Rightarrow> (Some ex, w1)
         | Inr table \<Rightarrow> (None, render (StDataframe table) w1))
      else (None, render (StInfo ''No trades executed yet'') w1))"

text \<open>The endpoints a run fetches, in the order of the five calls.\<close>

definition endpoints :: "string list" where
  "endpoints = [''health'', ''basis/snapshots'', ''strategies'', ''positions'', ''trades'']"

section \<open>Example runs\<close>

text \<open>
  A fresh session, the widgets as the page first shows them, and three backends: one that
  answers every request with status 200 and an empty list (201 would be the answer to a
  create request; this one says 200 to all), one that answers 503, one that is down.
  The clock of these environments stands still at the given time.
\<close>

definition fresh :: world where
  "fresh = \<lparr>clock_reads = 0, sent = [], ui = [], last_update = None, last_update_writes = []\<rparr>"

definition session_at :: "real \<Rightarrow> world" where
  "session_at t = fresh\<lparr>last_update := Some t\<rparr>"

definition default_widgets :: widgets where
  "default_widgets =
     \<lparr>auto_refresh = True, refresh_interval = 5, spot_symbol = ''BTC-USD'',
      future_symbol = ''BTC-PERP'', target_basis = 5, max_position = 1,
      min_trade_size = 1 / 100, form_submit_button = False\<rparr>"

definition backend_up :: "real \<Rightarrow> env" where
  "backend_up t =
     \<lparr>clock = (\<lambda>k. t),
      http = (\<lambda>k r. Inr \<lparr>status_code = 200, resp_text = ''[]'', resp_json = Inr (JArr [])\<rparr>),
      to_datetime = Inr\<rparr>"

definition backend_unavailable :: "real \<Rightarrow> env" where
  "backend_unavailable t =
     \<lparr>clock = (\<lambda>k. t),
      http = (\<lambda>k r. Inr \<lparr>status_code = 503, resp_text = ''Service Unavailable'',
                         resp_json = Inl (PyExn ''JSONDecodeError'' ''Expecting value'')\<rparr>),
      to_datetime = Inr\<rparr>"

definition backend_down :: "real \<Rightarrow> env" where
  "backend_down t =
     \<lparr>clock = (\<lambda>k. t),
      http = (\<lambda>k r. Inl (PyExn ''ConnectionError'' ''Connection refused'')),
      to_datetime = Inr\<rparr>"

text \<open>Three snapshots of two symbol pairs, as the backend lists them.\<close>

definition example_snapshots :: "pydict list" where
  "example_snapshots =
     [[(''timestamp'', JStr ''2024-05-01T10:00:10Z''), (''spot_symbol'', JStr ''BTC-USD''),
       (''future_symbol'', JStr ''BTC-PERP''), (''basis_percent'', JNum 3)],
      [(''timestamp'', JStr ''2024-05-01T10:00:05Z''), (''spot_symbol'', JStr ''ETH-USD''),
       (''future_symbol'', JStr ''ETH-PERP''), (''basis_percent'', JNum 2)],
      [(''timestamp'', JStr ''2024-05-01T10:00:00Z''), (''spot_symbol'', JStr ''BTC-USD''),
       (''future_symbol'', JStr ''BTC-PERP''), (''basis_percent'', JNum 1)]]"

text \<open>The frame of the three snapshots as line 173 leaves it (the columns the chart reads).\<close>

definition example_frame :: dataframe where
  "example_frame =
     \<lparr>nrows = 3,
      cols = [(''timestamp'', [Val (JStr ''2024-05-01T10:00:10Z''), Val (JStr ''2024-05-01T10:00:05Z''),
                              Val (JStr ''2024-05-01T10:00:00Z'')]),
              (''basis_percent'', [Val (JNum 3), Val (JNum 2), Val (JNum 1)]),
              (''pair'', [Val (JStr ''BTC-USD/BTC-PERP''), Val (JStr ''ETH-USD/ETH-PERP''),
                         Val (JStr ''BTC-USD/BTC-PERP'')])]\<rparr>"

text \<open>Three positions, two long and one short.\<close>

definition example_positions :: "pydict list" where
  "example_positions =
     [[(''symbol'', JStr ''BTC-PERP''), (''side'', JStr ''long''), (''size'', JNum 2)],
      [(''symbol'', JStr ''ETH-PERP''), (''side'', JStr ''short''), (''size'', JNum 5)],
      [(''symbol'', JStr ''SOL-PERP''), (''side'', JStr ''long''), (''size'', JNum 40)]]"

text \<open>Eleven trades, numbered 1 to 11 in the order the backend lists them.\<close>

definition example_trade :: "nat \<Rightarrow> pydict" where
  "example_trade i =
     [(''id'', JNum (real i)), (''strategy_id'', JNum 1), (''side'', JStr ''long''),
      (''size'', JNum 2), (''spot_price'', JNum 100), (''future_price'', JNum 101),
      (''basis'', JNum 1), (''status'', JStr ''filled''),
      (''created_at'', JStr ''2024-05-01T10:00:00Z'')]"

definition example_trades :: "pydict list" where
  "example_trades = map example_trade [1..<12]"

section \<open>Properties\<close>

subsection \<open>What each call does to the world\<close>

lemma str_int_503: "str_int 503 = ''503''"
  by code_simp

lemma new_strategy_session [simp]:
  "clock_reads (new_strategy e f w) = clock_reads w"
  "last_update (new_strategy e f w) = last_update w"
  "last_update_writes (new_strategy e f w) = last_update_writes w"
  by (simp_all add: new_strategy_def requests_post_def send_def render_def
      split: sum.splits prod.splits)

lemma new_strategy_sent:
  "sent (new_strategy e f w) =
     (if form_submit_button f
      then sent w @ [post_request (API_BASE_URL @ ''/strategies'') (strategy_data f)]
      else sent w)"
  by (simp add: new_strategy_def requests_post_def send_def render_def
      split: sum.splits prod.splits)

lemma fetch_data_world:
  "sent (snd (fetch_data e endpoint w)) = sent w @ [get_request (API_BASE_URL @ ''/'' @ endpoint)]"
  "clock_reads (snd (fetch_data e endpoint w)) = clock_reads w"
  "last_update (snd (fetch_data e endpoint w)) = last_update w"
  "last_update_writes (snd (fetch_data e endpoint w)) = last_update_writes w"
  by (simp_all add: fetch_data_def requests_get_def send_def fetch_failed_def render_def
      split: sum.splits prod.splits)

lemma fetch_all_world:
  "sent (snd (fetch_all e w)) = sent w @ map (\<lambda>p. get_request (API_BASE_URL @ ''/'' @ p)) endpoints"
  "clock_reads (snd (fetch_all e w)) = clock_reads w"
  "last_update (snd (fetch_all e w)) = last_update w"
  "last_update_writes (snd (fetch_all e w)) = last_update_writes w"
  by (simp_all add: fetch_all_def endpoints_def case_prod_beta fetch_data_world)

subsection \<open>The fetch boundary\<close>

text \<open>
  C1. When the request of \<^verbatim>\<open>fetch_data\<close> raises, or its response has a status other
  than 200, the call returns the empty list, and the world it leaves differs from the one
  it found by the one request sent and by exactly one rendered element, an error
  message. The call always returns a value: \<open>fetch_data\<close> is a total function into
  results, with no exception among them.
\<close>

theorem fetch_data_failure:
  assumes "(\<exists>ex. http e (length (sent w)) (get_request (API_BASE_URL @ ''/'' @ endpoint)) = Inl ex)
         \<or> (\<exists>r. http e (length (sent w)) (get_request (API_BASE_URL @ ''/'' @ endpoint)) = Inr r
                \<and> status_code r \<noteq> 200)"
  shows "\<exists>msg. fetch_data e endpoint w =
           (JArr [], w\<lparr>sent := sent w @ [get_request (API_BASE_URL @ ''/'' @ endpoint)],
                      ui := ui w @ [StError msg]\<rparr>)"
  using assms
  by (auto simp: fetch_data_def requests_get_def send_def fetch_failed_def render_def)

theorem fetch_data_failure_witness:
  "fetch_data (backend_unavailable 0) ''trades'' fresh =
     (JArr [], fresh\<lparr>sent := [get_request ''http://localhost:8080/api/trades''],
                    ui := [StError ''Failed to fetch trades: 503'']\<rparr>)
   \<and> (\<exists>msg. fetch_data (backend_down 0) ''trades'' fresh =
           (JArr [], fresh\<lparr>sent := [get_request ''http://localhost:8080/api/trades''],
                      ui := [StError msg]\<rparr>))"
proof -
  have down: "\<exists>ex. http (backend_down 0) (length (sent fresh))
      (get_request (API_BASE_URL @ ''/'' @ ''trades'')) = Inl ex"
    by (simp add: backend_down_def)
  have "\<exists>msg. fetch_data (backend_down 0) ''trades'' fresh =
           (JArr [], fresh\<lparr>sent := sent fresh @ [get_request (API_BASE_URL @ ''/'' @ ''trades'')],
                      ui := ui fresh @ [StError msg]\<rparr>)"
    using down by (intro fetch_data_failure) blast
  moreover have "fetch_data (backend_unavailable 0) ''trades'' fresh =
     (JArr [], fresh\<lparr>sent := [get_request ''http://localhost:8080/api/trades''],
                    ui := [StError ''Failed to fetch trades: 503'']\<rparr>)"
    by (simp add: fetch_data_def requests_get_def send_def fetch_failed_def render_def
        backend_unavailable_def fresh_def API_BASE_URL_def str_int_503)
  ultimately show ?thesis
    by (simp add: fresh_def API_BASE_URL_def)
qed

subsection \<open>The strategy form\<close>

text \<open>
  C10. When the create request of a submission raises, the handler renders the exception
  as one error message and ends normally: the world it returns has the request sent and
  the message rendered, and nothing else changed. \<open>new_strategy\<close> is a total function
  into worlds; no exception is among its results.
\<close>

theorem new_strategy_catches:
  assumes "form_submit_button f"
    and "http e (length (sent w)) (post_request (API_BASE_URL @ ''/strategies'') (strategy_data f)) = Inl ex"
  shows "new_strategy e f w =
           w\<lparr>sent := sent w @ [post_request (API_BASE_URL @ ''/strategies'') (strategy_data f)],
             ui := ui w @ [StError (''Error: '' @ exn_str ex)]\<rparr>"
  using assms by (simp add: new_strategy_def requests_post_def send_def render_def)

text \<open>The instance of C10 for a backend that refuses the connection.\<close>

theorem new_strategy_catches_witness:
  "new_strategy (backend_down 0) (default_widgets\<lparr>form_submit_button := True\<rparr>) fresh =
     fresh\<lparr>sent := [post_request ''http://localhost:8080/api/strategies''
                       (strategy_data (default_widgets\<lparr>form_submit_button := True\<rparr>))],
           ui := [StError ''Error: Connection refused'']\<rparr>"
proof -
  let ?f = "default_widgets\<lparr>form_submit_button := True\<rparr>"
  have pressed: "form_submit_button ?f"
    by simp
  have raised: "http (backend_down 0) (length (sent fresh))
      (post_request (API_BASE_URL @ ''/strategies'') (strategy_data ?f))
      = Inl (PyExn ''ConnectionError'' ''Connection refused'')"
    by (simp add: backend_down_def)
  show ?thesis
    using new_strategy_catches [OF pressed raised]
    by (simp add: fresh_def API_BASE_URL_def)
qed

lemma render_cycle_sent:
  "sent (snd (render_cycle e f w)) = sent (new_strategy e f w)
   \<or> sent (snd (render_cycle e f w)) = sent (new_strategy e f w) @ map (\<lambda>p. get_request (API_BASE_URL @ ''/'' @ p)) endpoints"
  by (simp add: render_cycle_def init_last_update_def time_time_def set_last_update_def
      case_prod_beta fetch_all_world split: option.splits)

lemma filter_post_gets: "filter is_post (map (\<lambda>p. get_request (u p)) ps) = []"
  by (induction ps) (simp_all add: is_post_def get_request_def)

text \<open>
  C4, as the code has it. A run caused by a submission issues exactly one create request,
  to \<^verbatim>\<open>/strategies\<close>. Its body has the six fields: the first five hold the values of
  the form's five inputs, whatever they are, and \<open>is_active\<close> is the constant
  \<^verbatim>\<open>True\<close> of the source.
\<close>

theorem strategy_form_submission:
  assumes "form_submit_button f"
  shows "\<exists>fields.
      filter is_post (sent (snd (render_cycle e f w))) =
        filter is_post (sent w) @ [post_request (API_BASE_URL @ ''/strategies'') (JObj fields)]
    \<and> map fst fields = [''spot_symbol'', ''future_symbol'', ''target_basis'', ''max_position'',
                        ''min_trade_size'', ''is_active'']
    \<and> map_of fields ''spot_symbol'' = Some (JStr (spot_symbol f))
    \<and> map_of fields ''future_symbol'' = Some (JStr (future_symbol f))
    \<and> map_of fields ''target_basis'' = Some (JNum (target_basis f))
    \<and> map_of fields ''max_position'' = Some (JNum (max_position f))
    \<and> map_of fields ''min_trade_size'' = Some (JNum (min_trade_size f))
    \<and> map_of fields ''is_active'' = Some (JBool True)"
proof -
  have "filter is_post (sent (snd (render_cycle e f w))) = filter is_post (sent (new_strategy e f w))"
    using render_cycle_sent [of e f w] by (auto simp: filter_post_gets)
  also have "\<dots> = filter is_post (sent w) @ [post_request (API_BASE_URL @ ''/strategies'') (strategy_data f)]"
    using assms by (simp add: new_strategy_sent is_post_def post_request_def)
  finally have posts: "filter is_post (sent (snd (render_cycle e f w))) =
      filter is_post (sent w) @ [post_request (API_BASE_URL @ ''/strategies'') (strategy_data f)]" .
  show ?thesis
    by (rule exI [of _ "[(''spot_symbol'', JStr (spot_symbol f)),
           (''future_symbol'', JStr (future_symbol f)),
           (''target_basis'', JNum (target_basis f)),
           (''max_position'', JNum (max_position f)),
           (''min_trade_size'', JNum (min_trade_size f)),
           (''is_active'', JBool True)]"])
      (simp add: posts strategy_data_def)
qed

text \<open>The instance of C4 for the form as the page first shows it.\<close>

theorem strategy_form_submission_witness:
  "\<exists>fields.
      filter is_post (sent (snd (render_cycle (backend_up 0)
        (default_widgets\<lparr>form_submit_button := True\<rparr>) fresh))) =
        [post_request ''http://localhost:8080/api/strategies'' (JObj fields)]
    \<and> map fst fields = [''spot_symbol'', ''future_symbol'', ''target_basis'', ''max_position'',
                        ''min_trade_size'', ''is_active'']
    \<and> map_of fields ''spot_symbol'' = Some (JStr ''BTC-USD'')
    \<and> map_of fields ''future_symbol'' = Some (JStr ''BTC-PERP'')
    \<and> map_of fields ''target_basis'' = Some (JNum 5)
    \<and> map_of fields ''max_position'' = Some (JNum 1)
    \<and> map_of fields ''min_trade_size'' = Some (JNum (1 / 100))
    \<and> map_of fields ''is_active'' = Some (JBool True)"
proof -
  let ?f = "default_widgets\<lparr>form_submit_button := True\<rparr>"
  have pressed: "form_submit_button ?f"
    by simp
  have inputs: "spot_symbol ?f = ''BTC-USD''" "future_symbol ?f = ''BTC-PERP''"
      "target_basis ?f = 5" "max_position ?f = 1" "min_trade_size ?f = 1 / 100"
    by (simp_all add: default_widgets_def)
  have start: "filter is_post (sent fresh) = []"
      "API_BASE_URL @ ''/strategies'' = ''http://localhost:8080/api/strategies''"
    by (simp_all add: fresh_def API_BASE_URL_def)
  show ?thesis
    using strategy_form_submission [OF pressed, of "backend_up 0" fresh]
    unfolding inputs start append_Nil .
qed

text \<open>
  C4 as the claim states it has the six fields collected from the form, an active flag
  among them. The form of the source has no flag widget, and five widgets that collect a
  value.
\<close>

theorem strategy_form_counterexample:
  "filter is_flag new_strategy_widgets = []
   \<and> length (filter collects_value new_strategy_widgets) = 5"
  by (simp add: new_strategy_widgets_def)

subsection \<open>The refresh condition\<close>

text \<open>
  C2 as the claim states it has no fetch request in a run with the toggle off. Such a run
  issues the five fetch requests, here 1000 seconds after the last refresh.
\<close>

theorem auto_refresh_disabled_counterexample:
  "\<not> auto_refresh (default_widgets\<lparr>auto_refresh := False\<rparr>)
   \<and> sent (snd (render_cycle (backend_up 2000) (default_widgets\<lparr>auto_refresh := False\<rparr>)
        (session_at 1000))) =
     [get_request ''http://localhost:8080/api/health'',
      get_request ''http://localhost:8080/api/basis/snapshots'',
      get_request ''http://localhost:8080/api/strategies'',
      get_request ''http://localhost:8080/api/positions'',
      get_request ''http://localhost:8080/api/trades'']"
  by (simp add: render_cycle_def init_last_update_def case_prod_beta fetch_all_world
      new_strategy_sent session_at_def fresh_def default_widgets_def endpoints_def
      API_BASE_URL_def)

text \<open>
  C2, as the code has it. A run with the toggle off never ends in a rerun, whatever the
  clock says: it issues the five fetch requests after what the form sent, and it leaves
  the session value as it found it (or as the run initialised it, when the session had
  none).
\<close>

theorem auto_refresh_disabled:
  assumes "\<not> auto_refresh f"
  shows "(\<exists>d. fst (render_cycle e f w) = Fetched d)
    \<and> sent (snd (render_cycle e f w)) =
        sent (new_strategy e f w) @ map (\<lambda>p. get_request (API_BASE_URL @ ''/'' @ p)) endpoints
    \<and> (case last_update w of
         Some t \<Rightarrow> last_update (snd (render_cycle e f w)) = Some t
                  \<and> last_update_writes (snd (render_cycle e f w)) = last_update_writes w
       | None \<Rightarrow> last_update (snd (render_cycle e f w)) = Some (clock e (clock_reads w))
                  \<and> last_update_writes (snd (render_cycle e f w)) =
                      last_update_writes w @ [clock e (clock_reads w)])"
  using assms
  by (simp add: render_cycle_def init_last_update_def time_time_def set_last_update_def
      case_prod_beta fetch_all_world split: option.splits)

text \<open>The instance of C2 for the run of the counterexample.\<close>

theorem auto_refresh_disabled_witness:
  "fst (render_cycle (backend_up 2000) (default_widgets\<lparr>auto_refresh := False\<rparr>) (session_at 1000)) \<noteq> Rerun
   \<and> last_update (snd (render_cycle (backend_up 2000) (default_widgets\<lparr>auto_refresh := False\<rparr>)
        (session_at 1000))) = Some 1000
   \<and> last_update_writes (snd (render_cycle (backend_up 2000)
        (default_widgets\<lparr>auto_refresh := False\<rparr>) (session_at 1000))) = []"
proof -
  let ?f = "default_widgets\<lparr>auto_refresh := False\<rparr>"
  have off: "\<not> auto_refresh ?f"
    by simp
  show ?thesis
    using auto_refresh_disabled [OF off, of "backend_up 2000" "session_at 1000"]
    by (auto simp: session_at_def fresh_def)
qed

text \<open>
  C3 as the claim states it triggers at an elapsed time of at least 5 seconds. At exactly
  5 seconds the condition \<^verbatim>\<open>elapsed > refresh_interval\<close> is false and the run does not
  end in a rerun.
\<close>

theorem auto_refresh_trigger_counterexample:
  "auto_refresh default_widgets \<and> refresh_interval default_widgets = 5
   \<and> elapsed (backend_up 1005) (session_at 1000) = 5
   \<and> fst (render_cycle (backend_up 1005) default_widgets (session_at 1000)) \<noteq> Rerun"
  by (simp add: render_cycle_def init_last_update_def time_time_def case_prod_beta
      elapsed_def session_at_def fresh_def default_widgets_def backend_up_def)

lemma init_last_update_new_strategy:
  "fst (init_last_update e (new_strategy e f w)) = fst (init_last_update e w)"
  "clock_reads (snd (init_last_update e (new_strategy e f w))) = clock_reads (snd (init_last_update e w))"
  "last_update (snd (init_last_update e (new_strategy e f w))) = last_update (snd (init_last_update e w))"
  "last_update_writes (snd (init_last_update e (new_strategy e f w))) = last_update_writes (snd (init_last_update e w))"
  by (simp_all add: init_last_update_def time_time_def set_last_update_def split: option.splits)

lemma elapsed_init:
  "elapsed e w = clock e (clock_reads (snd (init_last_update e w))) - fst (init_last_update e w)"
  by (simp add: elapsed_def init_last_update_def time_time_def set_last_update_def split: option.splits)

text \<open>
  C3, as the code has it. With the toggle on and an interval of 5 seconds, a run ends in a
  rerun exactly when the elapsed time is more than 5 seconds. A run that triggers assigns
  the session value once, the next reading of the clock, and fetches nothing itself; a
  run that does not trigger leaves the session value alone and issues the five fetches.
\<close>

theorem auto_refresh_trigger:
  assumes "auto_refresh f" and "refresh_interval f = 5"
  shows "(fst (render_cycle e f w) = Rerun \<longleftrightarrow> 5 < elapsed e w)
    \<and> (let w1 = snd (init_last_update e w); w' = snd (render_cycle e f w) in
         if 5 < elapsed e w then
           last_update w' = Some (clock e (Suc (clock_reads w1)))
           \<and> last_update_writes w' = last_update_writes w1 @ [clock e (Suc (clock_reads w1))]
           \<and> sent w' = sent (new_strategy e f w)
         else
           last_update w' = last_update w1
           \<and> last_update_writes w' = last_update_writes w1
           \<and> sent w' = sent (new_strategy e f w)
                @ map (\<lambda>p. get_request (API_BASE_URL @ ''/'' @ p)) endpoints)"
proof -
  obtain since w1 where init: "init_last_update e (new_strategy e f w) = (since, w1)"
    by (cases "init_last_update e (new_strategy e f w)")
  have since: "since = fst (init_last_update e w)"
    and w1: "clock_reads w1 = clock_reads (snd (init_last_update e w))"
      "last_update w1 = last_update (snd (init_last_update e w))"
      "last_update_writes w1 = last_update_writes (snd (init_last_update e w))"
    using init_last_update_new_strategy [of e f w] by (simp_all add: init)
  have sent_w1: "sent w1 = sent (new_strategy e f w)"
    using init by (auto simp: init_last_update_def time_time_def set_last_update_def split: option.splits)
  have el: "elapsed e w = clock e (clock_reads w1) - since"
    by (simp add: elapsed_init since w1)
  show ?thesis
    using assms
    by (simp add: render_cycle_def init time_time_def set_last_update_def case_prod_beta
        fetch_all_world el w1 sent_w1 Let_def)
qed

text \<open>The instance of C3 for a run 6 seconds after the last refresh.\<close>

theorem auto_refresh_trigger_witness:
  "fst (render_cycle (backend_up 1006) default_widgets (session_at 1000)) = Rerun
   \<and> last_update (snd (render_cycle (backend_up 1006) default_widgets (session_at 1000))) = Some 1006
   \<and> last_update_writes (snd (render_cycle (backend_up 1006) default_widgets (session_at 1000))) = [1006]
   \<and> sent (snd (render_cycle (backend_up 1006) default_widgets (session_at 1000))) = []"
proof -
  have on: "auto_refresh default_widgets" and five: "refresh_interval default_widgets = 5"
    by (simp_all add: default_widgets_def)
  have late: "elapsed (backend_up 1006) (session_at 1000) = 6"
    by (simp add: elapsed_def session_at_def fresh_def backend_up_def)
  have init: "snd (init_last_update (backend_up 1006) (session_at 1000)) = session_at 1000"
    by (simp add: init_last_update_def session_at_def fresh_def)
  have idle: "sent (new_strategy (backend_up 1006) default_widgets (session_at 1000)) = []"
    by (simp add: new_strategy_sent default_widgets_def session_at_def fresh_def)
  have start: "clock_reads (session_at 1000) = 0" "last_update_writes (session_at 1000) = []"
      "clock (backend_up 1006) (Suc 0) = 1006"
    by (simp_all add: session_at_def fresh_def backend_up_def)
  show ?thesis
    using auto_refresh_trigger [OF on five, of "backend_up 1006" "session_at 1000"]
    by (simp add: late init idle start Let_def)
qed

subsection \<open>Tables\<close>

lemma set_unique [simp]: "set (unique xs) = set xs"
  by (induction xs) auto

lemma distinct_unique [simp]: "distinct (unique xs)"
  by (induction xs) auto

lemma length_unique: "length (unique xs) = card (set xs)"
  using distinct_card [OF distinct_unique, of xs] by simp

lemma map_of_tabulate: "map_of (map (\<lambda>k. (k, f k)) ks) k = (if k \<in> set ks then Some (f k) else None)"
  by (induction ks) auto

lemma getitem_DataFrame:
  "getitem (DataFrame rs) k =
     (if \<exists>r \<in> set rs. k \<in> fst ` set r then Inr (map (\<lambda>r. lookup_cell r k) rs)
      else Inl (PyExn ''KeyError'' ([CHR 0x27] @ k @ [CHR 0x27])))"
  by (auto simp: getitem_def DataFrame_def map_of_tabulate)

lemma map_of_set_col:
  "map_of (set_col k xs cs) k' = (if k' = k then Some xs else map_of cs k')"
  by (induction k xs cs rule: set_col.induct) auto

lemma getitem_setitem:
  "getitem (setitem df k xs) k' = (if k' = k then Inr xs else getitem df k')"
  by (simp add: getitem_def setitem_def map_of_set_col)

lemma each_map:
  "(\<And>x. x \<in> set xs \<Longrightarrow> f (h x) = Inr (g x)) \<Longrightarrow> each f (map h xs) = Inr (map g xs)"
  by (induction xs) auto

lemma each_Inr: "each Inr xs = Inr xs"
  by (induction xs) auto

lemma getitem_convert_datetime:
  assumes "convert_datetime e df k = Inr df'" and "k' \<noteq> k"
  shows "getitem df' k' = getitem df k'"
  using assms
  by (auto simp: convert_datetime_def getitem_setitem split: sum.splits)

lemma str_column:
  assumes "\<forall>r \<in> set rs. \<exists>s. map_of r k = Some (JStr s)" and "rs \<noteq> []"
  shows "getitem (DataFrame rs) k = Inr (map (\<lambda>r. Val (JStr (str_field r k))) rs)"
proof -
  from assms obtain r s where "r \<in> set rs" "map_of r k = Some (JStr s)"
    by (cases rs) auto
  then have "\<exists>r \<in> set rs. k \<in> fst ` set r"
    by (force dest: map_of_SomeD)
  moreover have "map (\<lambda>r. lookup_cell r k) rs = map (\<lambda>r. Val (JStr (str_field r k))) rs"
    using assms(1) by (auto simp: lookup_cell_def str_field_def)
  ultimately show ?thesis
    by (simp add: getitem_DataFrame)
qed

subsection \<open>The basis panel\<close>

text \<open>
  C7. With an empty list of snapshots the basis panel renders its subheader and the
  informational message, and nothing else: no chart is among the elements it adds, and
  the panel ends without an exception. (\<open>basis_figure\<close> and \<open>create_basis_chart\<close> are
  not evaluated on this branch.)
\<close>

theorem empty_snapshots_placeholder:
  "basis_panel e [] w =
     (None, w\<lparr>ui := ui w @ [StSubheader ''Basis Analysis'', StInfo ''No basis data available yet'']\<rparr>)
   \<and> (\<forall>fig. StPlotlyChart fig \<notin> set (ui (snd (basis_panel e [] w))) - set (ui w))"
  by (auto simp: basis_panel_def render_def Let_def)

text \<open>
  C5. When every fetched snapshot has its two symbols as strings, line 173 succeeds and
  the column \<open>pair\<close> it adds holds, row by row, the spot symbol, a slash and the future
  symbol of the snapshot of that row. (The frame is the one line 172 leaves, with the
  timestamps converted.)
\<close>

theorem pair_is_concatenation:
  assumes conv: "convert_datetime e (DataFrame snapshots) ''timestamp'' = Inr df1"
    and wf: "\<forall>r \<in> set snapshots. (\<exists>s. map_of r ''spot_symbol'' = Some (JStr s))
               \<and> (\<exists>s. map_of r ''future_symbol'' = Some (JStr s))"
  shows "\<exists>df2. add_pair df1 = Inr df2
    \<and> getitem df2 ''pair'' =
        Inr (map (\<lambda>r. Val (JStr (str_field r ''spot_symbol'' @ ''/'' @ str_field r ''future_symbol'')))
               snapshots)"
proof -
  have nonempty: "snapshots \<noteq> []"
    using conv by (auto simp: convert_datetime_def getitem_DataFrame split: sum.splits)
  have spots: "getitem df1 ''spot_symbol'' =
      Inr (map (\<lambda>r. Val (JStr (str_field r ''spot_symbol''))) snapshots)"
    using getitem_convert_datetime [OF conv, of "''spot_symbol''"] str_column [OF _ nonempty, of "''spot_symbol''"] wf
    by simp
  have futures: "getitem df1 ''future_symbol'' =
      Inr (map (\<lambda>r. Val (JStr (str_field r ''future_symbol''))) snapshots)"
    using getitem_convert_datetime [OF conv, of "''future_symbol''"] str_column [OF _ nonempty, of "''future_symbol''"] wf
    by simp
  have prefixes: "series_add_str (map (\<lambda>r. Val (JStr (str_field r ''spot_symbol''))) snapshots) ''/'' =
      Inr (map (\<lambda>r. Val (JStr (str_field r ''spot_symbol'' @ ''/''))) snapshots)"
    unfolding series_add_str_def by (rule each_map) simp
  have pairs: "series_add (map (\<lambda>r. Val (JStr (str_field r ''spot_symbol'' @ ''/''))) snapshots)
        (map (\<lambda>r. Val (JStr (str_field r ''future_symbol''))) snapshots) =
      Inr (map (\<lambda>r. Val (JStr (str_field r ''spot_symbol'' @ ''/'' @ str_field r ''future_symbol'')))
             snapshots)"
  proof -
    have "zip (map (\<lambda>r. Val (JStr (str_field r ''spot_symbol'' @ ''/''))) snapshots)
            (map (\<lambda>r. Val (JStr (str_field r ''future_symbol''))) snapshots) =
          map (\<lambda>r. (Val (JStr (str_field r ''spot_symbol'' @ ''/'')),
                    Val (JStr (str_field r ''future_symbol'')))) snapshots"
      by (induction snapshots) simp_all
    then show ?thesis
      unfolding series_add_def by (simp only:) (rule each_map, simp)
  qed
  show ?thesis
    by (simp add: add_pair_def spots futures prefixes pairs getitem_setitem)
qed

text \<open>The instance of C5 for the three example snapshots.\<close>

theorem pair_is_concatenation_witness:
  "\<exists>df2. add_pair (setitem (DataFrame example_snapshots) ''timestamp''
             (map (\<lambda>r. lookup_cell r ''timestamp'') example_snapshots)) = Inr df2
    \<and> getitem df2 ''pair'' =
        Inr [Val (JStr ''BTC-USD/BTC-PERP''), Val (JStr ''ETH-USD/ETH-PERP''),
             Val (JStr ''BTC-USD/BTC-PERP'')]"
proof -
  have conv: "convert_datetime (backend_up 0) (DataFrame example_snapshots) ''timestamp'' =
      Inr (setitem (DataFrame example_snapshots) ''timestamp''
             (map (\<lambda>r. lookup_cell r ''timestamp'') example_snapshots))"
    by (simp add: convert_datetime_def getitem_DataFrame each_Inr backend_up_def
        example_snapshots_def)
  have wf: "\<forall>r \<in> set example_snapshots. (\<exists>s. map_of r ''spot_symbol'' = Some (JStr s))
               \<and> (\<exists>s. map_of r ''future_symbol'' = Some (JStr s))"
    by (simp add: example_snapshots_def)
  show ?thesis
    using pair_is_concatenation [OF conv wf]
    by (simp add: example_snapshots_def str_field_def)
qed

subsection \<open>The basis chart\<close>

lemma mask_rows_filter:
  "mask_rows (map P xs) ys = map snd (filter (\<lambda>(x, _). P x) (zip xs ys))"
proof (induction xs arbitrary: ys)
  case Nil
  then show ?case by (simp add: mask_rows_def)
next
  case (Cons x xs)
  then show ?case by (cases ys) (auto simp: mask_rows_def)
qed

lemma getitem_filter_df:
  "getitem (filter_df df m) k =
     (case getitem df k of Inl ex \<Rightarrow> Inl ex | Inr xs \<Rightarrow> Inr (mask_rows m xs))"
  by (simp add: getitem_def filter_df_def map_of_map split: option.splits)

lemma pair_trace_rows:
  assumes "getitem df ''pair'' = Inr pairs" "getitem df ''timestamp'' = Inr ts"
    "getitem df ''basis_percent'' = Inr bs"
  shows "pair_trace df p =
    Inr (Scatter (map snd (filter (\<lambda>(c, _). cell_eq c p) (zip pairs ts)))
           (map snd (filter (\<lambda>(c, _). cell_eq c p) (zip pairs bs))) ''lines+markers'' p 2 6)"
  using assms by (simp add: pair_trace_def getitem_filter_df mask_rows_filter)

lemma add_traces_rows:
  assumes "getitem df ''pair'' = Inr pairs" "getitem df ''timestamp'' = Inr ts"
    "getitem df ''basis_percent'' = Inr bs"
  shows "add_traces df ps fig =
    Inr (fig @ map (\<lambda>p. Scatter (map snd (filter (\<lambda>(c, _). cell_eq c p) (zip pairs ts)))
           (map snd (filter (\<lambda>(c, _). cell_eq c p) (zip pairs bs))) ''lines+markers'' p 2 6) ps)"
  by (induction ps arbitrary: fig) (simp_all add: pair_trace_rows [OF assms])

lemma unique_two:
  assumes "card (set xs) = 2"
  shows "\<exists>a b. unique xs = [a, b] \<and> a \<noteq> b \<and> set xs = {a, b}"
proof -
  have "length (unique xs) = 2"
    using assms by (simp add: length_unique)
  then obtain a b where ab: "unique xs = [a, b]"
    by (auto simp: length_Suc_conv numeral_2_eq_2)
  have "distinct (unique xs)" "set (unique xs) = set xs"
    by simp_all
  with ab show ?thesis
    by (metis distinct_length_2_or_more distinct.simps(2) empty_set list.simps(15) list.set_intros(1))
qed

text \<open>
  C6. On a frame with the columns \<open>pair\<close>, \<open>timestamp\<close> and \<open>basis_percent\<close>
  whose pairs are strings (or missing) with exactly two distinct values,
  \<open>create_basis_chart\<close> returns a figure with exactly two traces, named by the two
  pairs in the order they first appear. The points of each trace are the timestamps and
  basis values of the rows with the pair of the trace, in the order of the rows, that is
  in the order the snapshots were received; nothing is sorted.
\<close>

theorem basis_chart_two_series:
  assumes pairs: "getitem df ''pair'' = Inr pairs"
    and ts: "getitem df ''timestamp'' = Inr ts"
    and bs: "getitem df ''basis_percent'' = Inr bs"
    and strs: "\<forall>c \<in> set pairs. c = NaN \<or> (\<exists>s. c = Val (JStr s))"
    and two: "card (set pairs) = 2"
  shows "\<exists>fig t1 t2. create_basis_chart df = Inr fig
    \<and> fig_data fig = [t1, t2]
    \<and> trace_name t1 \<noteq> trace_name t2
    \<and> [trace_name t1, trace_name t2] = unique pairs
    \<and> set pairs = {trace_name t1, trace_name t2}
    \<and> (\<forall>t \<in> {t1, t2}.
          trace_x t = map snd (filter (\<lambda>(c, _). cell_eq c (trace_name t)) (zip pairs ts))
        \<and> trace_y t = map snd (filter (\<lambda>(c, _). cell_eq c (trace_name t)) (zip pairs bs)))"
proof -
  from unique_two [OF two] obtain a b where
    ab: "unique pairs = [a, b]" "a \<noteq> b" "set pairs = {a, b}"
    by blast
  let ?trace = "\<lambda>p. Scatter (map snd (filter (\<lambda>(c, _). cell_eq c p) (zip pairs ts)))
      (map snd (filter (\<lambda>(c, _). cell_eq c p) (zip pairs bs))) ''lines+markers'' p 2 6"
  have traces: "add_traces df (unique pairs) [] = Inr [?trace a, ?trace b]"
    unfolding add_traces_rows [OF pairs ts bs] ab(1) by simp
  let ?fig = "\<lparr>fig_data = [?trace a, ?trace b], fig_title = ''Basis Percentage Over Time'',
      xaxis_title = Some ''Time'', yaxis_title = Some ''Basis %'',
      fig_height = 400, hovermode = Some ''x unified''\<rparr>"
  have chart: "create_basis_chart df = Inr ?fig"
    by (simp add: create_basis_chart_def pairs traces)
  show ?thesis
    by (rule exI [of _ ?fig], rule exI [of _ "?trace a"], rule exI [of _ "?trace b"])
      (simp add: chart ab)
qed

text \<open>The instance of C6 for the frame of the three example snapshots.\<close>

theorem basis_chart_two_series_witness:
  "\<exists>fig t1 t2. create_basis_chart example_frame = Inr fig
    \<and> fig_data fig = [t1, t2]
    \<and> trace_name t1 = Val (JStr ''BTC-USD/BTC-PERP'')
    \<and> trace_name t2 = Val (JStr ''ETH-USD/ETH-PERP'')
    \<and> trace_x t1 = [Val (JStr ''2024-05-01T10:00:10Z''), Val (JStr ''2024-05-01T10:00:00Z'')]
    \<and> trace_y t1 = [Val (JNum 3), Val (JNum 1)]
    \<and> trace_x t2 = [Val (JStr ''2024-05-01T10:00:05Z'')]
    \<and> trace_y t2 = [Val (JNum 2)]"
proof -
  let ?pairs = "[Val (JStr ''BTC-USD/BTC-PERP''), Val (JStr ''ETH-USD/ETH-PERP''),
    Val (JStr ''BTC-USD/BTC-PERP'')]"
  let ?ts = "[Val (JStr ''2024-05-01T10:00:10Z''), Val (JStr ''2024-05-01T10:00:05Z''),
    Val (JStr ''2024-05-01T10:00:00Z'')]"
  let ?bs = "[Val (JNum 3), Val (JNum 2), Val (JNum 1)]"
  have pairs: "getitem example_frame ''pair'' = Inr ?pairs"
    and ts: "getitem example_frame ''timestamp'' = Inr ?ts"
    and bs: "getitem example_frame ''basis_percent'' = Inr ?bs"
    by (simp_all add: getitem_def example_frame_def)
  have strs: "\<forall>c \<in> set ?pairs. c = NaN \<or> (\<exists>s. c = Val (JStr s))"
    by simp
  have "set ?pairs = {Val (JStr ''BTC-USD/BTC-PERP''), Val (JStr ''ETH-USD/ETH-PERP'')}"
    by auto
  then have two: "card (set ?pairs) = 2"
    by simp
  from basis_chart_two_series [OF pairs ts bs strs two] obtain fig t1 t2 where
    chart: "create_basis_chart example_frame = Inr fig" "fig_data fig = [t1, t2]"
    and names: "[trace_name t1, trace_name t2] = unique ?pairs"
    and rows: "\<forall>t \<in> {t1, t2}.
          trace_x t = map snd (filter (\<lambda>(c, _). cell_eq c (trace_name t)) (zip ?pairs ?ts))
        \<and> trace_y t = map snd (filter (\<lambda>(c, _). cell_eq c (trace_name t)) (zip ?pairs ?bs))"
    by blast
  from names have n1: "trace_name t1 = Val (JStr ''BTC-USD/BTC-PERP'')"
    and n2: "trace_name t2 = Val (JStr ''ETH-USD/ETH-PERP'')"
    by simp_all
  from rows have "trace_x t1 = [Val (JStr ''2024-05-01T10:00:10Z''), Val (JStr ''2024-05-01T10:00:00Z'')]"
    "trace_y t1 = [Val (JNum 3), Val (JNum 1)]"
    "trace_x t2 = [Val (JStr ''2024-05-01T10:00:05Z'')]"
    "trace_y t2 = [Val (JNum 2)]"
    by (simp_all add: n1 n2 cell_eq_def)
  with chart n1 n2 show ?thesis
    by blast
qed

subsection \<open>The position chart\<close>

lemma px_column_getitem: "getitem df k = Inr xs \<Longrightarrow> px_column df k = Inr xs"
  by (simp add: getitem_def px_column_def split: option.splits)

lemma map_colors: "is_green ''#00CC88'' \<and> is_red ''#FF4444''"
  by code_simp

lemma map_eq_two: "map f xs = [a, b] \<Longrightarrow> \<exists>x y. xs = [x, y] \<and> f x = a \<and> f y = b"
  by (auto simp: map_eq_Cons_conv)

lemma mask_rows_all:
  "\<forall>c \<in> set cs. P c \<Longrightarrow> length xs = length cs \<Longrightarrow> mask_rows (map P cs) xs = xs"
proof (induction cs arbitrary: xs)
  case Nil
  then show ?case by (simp add: mask_rows_def)
next
  case (Cons c cs)
  then show ?case by (cases xs) (auto simp: mask_rows_def)
qed

lemma px_single_trace:
  assumes strs: "\<forall>c \<in> set sides. \<exists>s. c = Val (JStr s)"
    and lens: "length symbols = length sides" "length sizes = length sides"
    and u: "unique sides = [v]"
  shows "bar_trace m symbols sizes sides v = Bar symbols sizes v (discrete_color m v)"
proof -
  have "set (unique sides) = {v}"
    by (simp only: u list.set)
  then have sv: "set sides = {v}"
    by (simp only: set_unique)
  have all: "\<forall>c \<in> set sides. cell_eq c v"
  proof
    fix c assume c: "c \<in> set sides"
    with sv have cv: "c = v" by blast
    from strs c obtain s where "c = Val (JStr s)" by blast
    then show "cell_eq c v"
      unfolding cv [symmetric] by (simp add: cell_eq_def)
  qed
  have "mask_rows (map (\<lambda>c. cell_eq c v) sides) symbols = symbols"
    "mask_rows (map (\<lambda>c. cell_eq c v) sides) sizes = sizes"
    by (rule mask_rows_all [OF all lens(1)], rule mask_rows_all [OF all lens(2)])
  then show ?thesis
    by (simp add: bar_trace_def Let_def)
qed

lemma px_traces_strings:
  assumes strs: "\<forall>c \<in> set sides. \<exists>s. c = Val (JStr s)"
    and lens: "length symbols = length sides" "length sizes = length sides"
  shows "(case unique sides of
            [v] \<Rightarrow> [Bar symbols sizes v (discrete_color m v)]
          | _ \<Rightarrow> map (bar_trace m symbols sizes sides) (unique (filter (\<lambda>c. \<not> isna c) sides)))
         = map (bar_trace m symbols sizes sides) (unique sides)"
proof -
  have present: "filter (\<lambda>c. \<not> isna c) sides = sides"
    using strs by (auto simp: filter_id_conv)
  show ?thesis
  proof (cases "unique sides")
    case Nil
    then show ?thesis by (simp add: present)
  next
    case (Cons v rest)
    note first = Cons
    show ?thesis
    proof (cases rest)
      case Nil
      with first have u: "unique sides = [v]" by simp
      show ?thesis
        by (simp add: u px_single_trace [OF strs lens u])
    next
      case (Cons w rest')
      with first show ?thesis by (simp add: present)
    qed
  qed
qed



text \<open>
  Outside the data model: two positions whose side is \<^verbatim>\<open>null\<close>. The colour column has
  one distinct value, so nothing is grouped and one trace holds both rows.
\<close>

lemma position_chart_missing_sides:
  "create_position_chart
     \<lparr>nrows = 2,
      cols = [(''symbol'', [Val (JStr ''BTC-PERP''), Val (JStr ''ETH-PERP'')]),
              (''side'', [Val JNull, Val JNull]),
              (''size'', [Val (JNum 2), Val (JNum 5)])]\<rparr> =
   Inr \<lparr>fig_data = [Bar [Val (JStr ''BTC-PERP''), Val (JStr ''ETH-PERP'')]
                      [Val (JNum 2), Val (JNum 5)] (Val JNull) None],
        fig_title = ''Current Positions'', xaxis_title = Some ''symbol'',
        yaxis_title = Some ''size'', fig_height = 300, hovermode = None\<rparr>"
  by (simp add: create_position_chart_def px_bar_def px_column_def discrete_color_def)

subsection \<open>The recent trades\<close>

lemma each_length: "each f xs = Inr ys \<Longrightarrow> length ys = length xs"
  by (induction xs arbitrary: ys) (auto split: sum.splits)

lemma each_drop: "each f xs = Inr ys \<Longrightarrow> each f (drop m xs) = Inr (drop m ys)"
proof (induction xs arbitrary: m ys)
  case Nil
  then show ?case by simp
next
  case (Cons x xs)
  then show ?case by (cases m) (auto split: sum.splits)
qed

lemma select_cols_Inr:
  assumes "select_cols df ks = Inr shown"
  shows "nrows shown = nrows df" "map fst (cols shown) = ks"
    "\<forall>(k, xs) \<in> set (cols shown). getitem df k = Inr xs"
proof -
  have *: "each (\<lambda>k. case getitem df k of Inl ex \<Rightarrow> Inl ex | Inr xs \<Rightarrow> Inr (k, xs)) ks = Inr cs
      \<Longrightarrow> map fst cs = ks \<and> (\<forall>(k, xs) \<in> set cs. getitem df k = Inr xs)" for cs
    by (induction ks arbitrary: cs) (auto split: sum.splits)
  from assms obtain cs where
    cs: "each (\<lambda>k. case getitem df k of Inl ex \<Rightarrow> Inl ex | Inr xs \<Rightarrow> Inr (k, xs)) ks = Inr cs"
    and shown: "shown = \<lparr>nrows = nrows df, cols = cs\<rparr>"
    by (auto simp: select_cols_def split: sum.splits)
  from *[OF cs] shown show "nrows shown = nrows df" "map fst (cols shown) = ks"
    "\<forall>(k, xs) \<in> set (cols shown). getitem df k = Inr xs"
    by simp_all
qed

lemma trades_table_Inr:
  assumes "trades_table e trades = Inr table"
  shows "nrows table = min 10 (length trades) \<and> map fst (cols table) = trade_columns
    \<and> (\<forall>(k, xs) \<in> set (cols table).
          length xs = min 10 (length trades)
        \<and> (k \<noteq> ''created_at'' \<longrightarrow>
             xs = map (\<lambda>r. lookup_cell r k) (drop (length trades - 10) trades))
        \<and> (k = ''created_at'' \<longrightarrow>
             each (to_datetime e) (map (\<lambda>r. lookup_cell r k) (drop (length trades - 10) trades))
               = Inr xs))"
proof -
  from assms obtain df shown where
    conv: "convert_datetime e (DataFrame trades) ''created_at'' = Inr df"
    and sel: "select_cols df trade_columns = Inr shown"
    and table: "table = tail 10 shown"
    by (auto simp: trades_table_def split: sum.splits)
  from conv obtain ts where
    ts: "each (to_datetime e) (map (\<lambda>r. lookup_cell r ''created_at'') trades) = Inr ts"
    and df: "df = setitem (DataFrame trades) ''created_at'' ts"
    by (auto simp: convert_datetime_def getitem_DataFrame split: sum.splits if_splits)
  have rows: "nrows df = length trades"
    by (simp add: df setitem_def DataFrame_def)
  have col: "(k = ''created_at'' \<longrightarrow> xs = ts)
      \<and> (k \<noteq> ''created_at'' \<longrightarrow> xs = map (\<lambda>r. lookup_cell r k) trades)"
    if "getitem df k = Inr xs" for k xs
    using that by (auto simp: df getitem_setitem getitem_DataFrame split: if_splits)
  have len: "length ts = length trades"
    using each_length [OF ts] by simp
  have shown_cols: "\<forall>(k, xs) \<in> set (cols shown). getitem df k = Inr xs"
    by (rule select_cols_Inr [OF sel])
  have "length ys = min 10 (length trades)
      \<and> (k \<noteq> ''created_at'' \<longrightarrow> ys = map (\<lambda>r. lookup_cell r k) (drop (length trades - 10) trades))
      \<and> (k = ''created_at'' \<longrightarrow>
           each (to_datetime e) (map (\<lambda>r. lookup_cell r k) (drop (length trades - 10) trades))
             = Inr ys)"
    if "(k, ys) \<in> set (cols table)" for k ys
  proof -
    from that obtain xs where xs: "(k, xs) \<in> set (cols shown)" and ys: "ys = drop (length xs - 10) xs"
      by (auto simp: table tail_def)
    from shown_cols xs have "getitem df k = Inr xs"
      by auto
    from col [OF this] have cases: "(k = ''created_at'' \<longrightarrow> xs = ts)"
      "(k \<noteq> ''created_at'' \<longrightarrow> xs = map (\<lambda>r. lookup_cell r k) trades)"
      by simp_all
    then have lx: "length xs = length trades"
      using len by (cases "k = ''created_at''") simp_all
    show ?thesis
    proof (cases "k = ''created_at''")
      case True
      with cases have "xs = ts" by simp
      with each_drop [OF ts, of "length trades - 10"] True show ?thesis
        by (simp add: ys lx len drop_map)
    next
      case False
      with cases have "xs = map (\<lambda>r. lookup_cell r k) trades" by simp
      with False show ?thesis
        by (simp add: ys drop_map)
    qed
  qed
  moreover have "nrows table = min 10 (length trades)"
    using select_cols_Inr(1) [OF sel] by (simp add: table tail_def rows)
  moreover have "map fst (cols table) = trade_columns"
    using select_cols_Inr(2) [OF sel] by (simp add: table tail_def comp_def case_prod_beta)
  ultimately show ?thesis
    by blast
qed

lemma select_cols_total:
  assumes "\<forall>k \<in> set ks. \<exists>xs. getitem df k = Inr xs"
  shows "\<exists>shown. select_cols df ks = Inr shown"
proof -
  have "\<exists>cs. each (\<lambda>k. case getitem df k of Inl ex \<Rightarrow> Inl ex | Inr xs \<Rightarrow> Inr (k, xs)) ks = Inr cs"
    using assms by (induction ks) auto
  then show ?thesis
    by (auto simp: select_cols_def)
qed

text \<open>
  C9. With a non-empty list of trades the panel renders its subheader and then either
  ends with an exception (a column of the table is absent from every trade, or a creation
  time does not convert), showing no table, or shows exactly one table. That table has as
  many rows as the smaller of 10 and the number of trades, never more; its columns are
  the nine of the source, in that order; and each column holds the values of the last
  rows of the list, in the order of the list: the cells of the last (at most 10) trades
  under the column's key, converted by \<^verbatim>\<open>pd.to_datetime\<close> in the column
  \<open>created_at\<close>.
\<close>

theorem recent_trades_last_ten:
  assumes "trades \<noteq> []"
  shows "(\<exists>ex. trades_panel e trades w =
            (Some ex, w\<lparr>ui := ui w @ [StSubheader ''Recent Trades'']\<rparr>))
    \<or> (\<exists>table. trades_panel e trades w =
            (None, w\<lparr>ui := ui w @ [StSubheader ''Recent Trades'', StDataframe table]\<rparr>)
          \<and> nrows table = min 10 (length trades)
          \<and> map fst (cols table) = trade_columns
          \<and> (\<forall>(k, xs) \<in> set (cols table).
                length xs = min 10 (length trades)
              \<and> (k \<noteq> ''created_at'' \<longrightarrow>
                   xs = map (\<lambda>r. lookup_cell r k) (drop (length trades - 10) trades))
              \<and> (k = ''created_at'' \<longrightarrow>
                   each (to_datetime e)
                     (map (\<lambda>r. lookup_cell r k) (drop (length trades - 10) trades)) = Inr xs)))"
proof (cases "trades_table e trades")
  case (Inl ex)
  with assms have "trades_panel e trades w =
      (Some ex, w\<lparr>ui := ui w @ [StSubheader ''Recent Trades'']\<rparr>)"
    by (simp add: trades_panel_def render_def Let_def)
  then show ?thesis
    by blast
next
  case (Inr table)
  with assms have "trades_panel e trades w =
      (None, w\<lparr>ui := ui w @ [StSubheader ''Recent Trades'', StDataframe table]\<rparr>)"
    by (simp add: trades_panel_def render_def Let_def)
  with trades_table_Inr [OF Inr] show ?thesis
    by blast
qed

text \<open>The instance of C9 for the eleven example trades: ten rows are shown.\<close>

theorem recent_trades_last_ten_witness:
  "length example_trades = 11
   \<and> (\<exists>table. trades_panel (backend_up 0) example_trades fresh =
          (None, fresh\<lparr>ui := [StSubheader ''Recent Trades'', StDataframe table]\<rparr>)
        \<and> nrows table = 10
        \<and> map fst (cols table) = trade_columns
        \<and> (\<forall>(k, xs) \<in> set (cols table). length xs = 10))"
proof -
  have len: "length example_trades = 11" and some: "example_trades \<noteq> []"
    by (simp_all add: example_trades_def)
  have keys: "\<exists>r \<in> set example_trades. k \<in> fst ` set r" if "k \<in> set trade_columns" for k
    using that by (auto simp: example_trades_def example_trade_def trade_columns_def)
  have conv: "convert_datetime (backend_up 0) (DataFrame example_trades) ''created_at'' =
      Inr (setitem (DataFrame example_trades) ''created_at''
             (map (\<lambda>r. lookup_cell r ''created_at'') example_trades))"
    using keys [of "''created_at''"]
    by (simp add: convert_datetime_def getitem_DataFrame each_Inr backend_up_def trade_columns_def)
  have "\<forall>k \<in> set trade_columns. \<exists>xs. getitem (setitem (DataFrame example_trades) ''created_at''
             (map (\<lambda>r. lookup_cell r ''created_at'') example_trades)) k = Inr xs"
    using keys by (simp add: getitem_setitem getitem_DataFrame)
  from select_cols_total [OF this] conv have ok: "\<exists>table. trades_table (backend_up 0) example_trades = Inr table"
    by (auto simp: trades_table_def)
  have no_exn: "\<not> (\<exists>ex. trades_panel (backend_up 0) example_trades fresh =
      (Some ex, fresh\<lparr>ui := ui fresh @ [StSubheader ''Recent Trades'']\<rparr>))"
    using ok some by (auto simp: trades_panel_def Let_def)
  have start: "ui fresh = []"
    by (simp add: fresh_def)
  from recent_trades_last_ten [OF some, of "backend_up 0" fresh] no_exn
  obtain table where
    "trades_panel (backend_up 0) example_trades fresh =
       (None, fresh\<lparr>ui := ui fresh @ [StSubheader ''Recent Trades'', StDataframe table]\<rparr>)"
    "nrows table = min 10 (length example_trades)"
    "map fst (cols table) = trade_columns"
    "\<forall>(k, xs) \<in> set (cols table). length xs = min 10 (length example_trades)"
    by fast
  then show ?thesis
    unfolding len start by (intro conjI exI [of _ table]) simp_all
qed

end
